theory Spec2Isabelle
  imports Complex_Main "HOL-Library.Sublist"
begin

section \<open>Errors\<close>

text \<open>
  The notebook has no error handling of its own: a Python exception raised in a cell
  aborts the cell. The model returns it as a value. \<open>KeyError k\<close> is the exception of a
  failed dictionary subscript \<open>d[k]\<close>; \<open>SchemaError c\<close> is the failure of the feature
  assembler on column \<open>c\<close>.
\<close>

datatype error = KeyError int | SchemaError string

section \<open>The feature columns (cell 20)\<close>

text \<open>
  \<^verbatim>\<open>
  feature_column_names = ["balance", "duration", "history", "purpose", "amount",
                 "savings", "employment", "instPercent", "sexMarried",
                 "guarantors", "residenceDuration", "assets",  "age",
                 "concCredit", "apartment", "credits","occupation",
                 "dependents",  "hasPhone", "foreign" ]
  \<close>
\<close>

definition feature_column_names :: "string list" where
  "feature_column_names =
     [''balance'', ''duration'', ''history'', ''purpose'', ''amount'',
      ''savings'', ''employment'', ''instPercent'', ''sexMarried'',
      ''guarantors'', ''residenceDuration'', ''assets'', ''age'',
      ''concCredit'', ''apartment'', ''credits'', ''occupation'',
      ''dependents'', ''hasPhone'', ''foreign'']"

section \<open>The checking account table (cell 17)\<close>

text \<open>
  \<^verbatim>\<open>
  CHECKING_ACCOUNT_STATUS = {
      1: '< 0 DM',
      2: '0 <= ... < 200 DM',
      3: '... >= 200 DM',
      4: 'no checking account'
  }

  checking_account_status = F.udf(lambda index: CHECKING_ACCOUNT_STATUS[index], StringType())
  \<close>
  The dictionary is a finite map, written as the association list of its literal. The
  lambda subscripts it, so a key that is absent raises \<open>KeyError\<close>: there is no
  \<open>.get\<close> and no default.
\<close>

definition CHECKING_ACCOUNT_STATUS :: "(int \<times> string) list" where
  "CHECKING_ACCOUNT_STATUS =
     [(1, ''< 0 DM''),
      (2, ''0 <= ... < 200 DM''),
      (3, ''... >= 200 DM''),
      (4, ''no checking account'')]"

definition checking_account_status :: "int \<Rightarrow> error + string" where
  "checking_account_status index =
     (case map_of CHECKING_ACCOUNT_STATUS index of
        None \<Rightarrow> Inl (KeyError index)
      | Some v \<Rightarrow> Inr v)"

text \<open>
  \<^verbatim>\<open>
  credits_df
      .groupBy('balance')
      .pivot('creditability')
      .count()
      .withColumnRenamed('0', 'high_risk')
      .withColumnRenamed('1', 'low_risk')
      .orderBy('balance', ascending=False)
      .withColumn('checking_account_status', checking_account_status('balance'))
      .toPandas()
  \<close>
  Of \<open>credits_df\<close> the cell reads the two integer columns \<open>balance\<close> and
  \<open>creditability\<close>; a row of the model is that pair. Grouping gives one row for each
  distinct \<open>balance\<close>, the pivot counts its rows of label 0 and of label 1 (no count where
  there is no such row), the order is by \<open>balance\<close>, largest first, and the last column is
  the lambda applied to the \<open>balance\<close> of each row. \<open>toPandas\<close> computes every row, so
  the exception of any row is the exception of the cell.
\<close>

record pivot_row =
  balance :: int
  high_risk :: "nat option"
  low_risk :: "nat option"

record status_row = pivot_row +
  status :: string

definition pivot_cell :: "(int \<times> int) list \<Rightarrow> int \<Rightarrow> int \<Rightarrow> nat option" where
  "pivot_cell rows b l =
     (let n = length (filter (\<lambda>r. r = (b, l)) rows) in if n = 0 then None else Some n)"

definition group_pivot_count :: "(int \<times> int) list \<Rightarrow> pivot_row list" where
  "group_pivot_count rows =
     map (\<lambda>b. \<lparr>balance = b, high_risk = pivot_cell rows b 0, low_risk = pivot_cell rows b 1\<rparr>)
       (rev (sort (remdups (map fst rows))))"

fun with_status_column :: "pivot_row list \<Rightarrow> error + status_row list" where
  "with_status_column [] = Inr []"
| "with_status_column (r # rs) =
     (case checking_account_status (balance r) of
        Inl e \<Rightarrow> Inl e
      | Inr s \<Rightarrow>
          (case with_status_column rs of
             Inl e \<Rightarrow> Inl e
           | Inr out \<Rightarrow> Inr (pivot_row.extend r \<lparr>status = s\<rparr> # out)))"

definition status_table :: "(int \<times> int) list \<Rightarrow> error + status_row list" where
  "status_table rows = with_status_column (group_pivot_count rows)"

section \<open>The feature assembler (cell 22)\<close>

text \<open>
  \<^verbatim>\<open>
  assembler = VectorAssembler(inputCols=feature_column_names, outputCol="features")
  features_df = assembler.transform(credits_df)
  \<close>
  A row of a table is the list of its columns, each a name and a cell.
\<close>

datatype cell = IntCell int | DoubleCell real | StringCell string | VectorCell "real list" | NullCell

type_synonym row = "(string \<times> cell) list"

text \<open>
  Modelled from the spec: \<open>VectorAssembler\<close> and its \<open>transform\<close> belong to the
  \<open>pyspark.ml.feature\<close> library, which the notebook imports and calls; its code is not
  in the repository. The specification (Feature Assembler) gives its contract: the input
  is a table and an ordered list of column names, the output is the table with one more
  column holding, for each row, the named numeric columns concatenated in the order of the
  list, and a named column that is missing or not numeric fails with a schema error.
  Numbers are exact here; the rounding of an integer to a double is not modelled.
\<close>

definition numeric :: "cell \<Rightarrow> real option" where
  "numeric c = (case c of IntCell i \<Rightarrow> Some (of_int i) | DoubleCell x \<Rightarrow> Some x | _ \<Rightarrow> None)"

fun assemble :: "string list \<Rightarrow> row \<Rightarrow> error + real list" where
  "assemble [] r = Inr []"
| "assemble (c # cs) r =
     (case map_of r c of
        None \<Rightarrow> Inl (SchemaError c)
      | Some v \<Rightarrow>
          (case numeric v of
             None \<Rightarrow> Inl (SchemaError c)
           | Some x \<Rightarrow>
               (case assemble cs r of
                  Inl e \<Rightarrow> Inl e
                | Inr xs \<Rightarrow> Inr (x # xs))))"

fun VectorAssembler_transform :: "string list \<Rightarrow> string \<Rightarrow> row list \<Rightarrow> error + row list" where
  "VectorAssembler_transform inputCols outputCol [] = Inr []"
| "VectorAssembler_transform inputCols outputCol (r # rs) =
     (case assemble inputCols r of
        Inl e \<Rightarrow> Inl e
      | Inr v \<Rightarrow>
          (case VectorAssembler_transform inputCols outputCol rs of
             Inl e \<Rightarrow> Inl e
           | Inr out \<Rightarrow> Inr ((r @ [(outputCol, VectorCell v)]) # out)))"

text \<open>The call of the cell: the fixed column list, and \<open>features\<close> for the new column.\<close>

definition features_df :: "row list \<Rightarrow> error + row list" where
  "features_df credits_df = VectorAssembler_transform feature_column_names ''features'' credits_df"

text \<open>A row in the shape of the data file: the label and the 20 integer columns.\<close>

definition example_row :: row where
  "example_row =
     [(''creditability'', IntCell 1), (''balance'', IntCell 1), (''duration'', IntCell 18),
      (''history'', IntCell 4), (''purpose'', IntCell 2), (''amount'', IntCell 1049),
      (''savings'', IntCell 1), (''employment'', IntCell 2), (''instPercent'', IntCell 4),
      (''sexMarried'', IntCell 2), (''guarantors'', IntCell 1), (''residenceDuration'', IntCell 4),
      (''assets'', IntCell 2), (''age'', IntCell 21), (''concCredit'', IntCell 3),
      (''apartment'', IntCell 1), (''credits'', IntCell 1), (''occupation'', IntCell 3),
      (''dependents'', IntCell 1), (''hasPhone'', IntCell 1), (''foreign'', IntCell 1)]"

definition example_row2 :: row where
  "example_row2 =
     [(''creditability'', IntCell 0), (''balance'', IntCell 2), (''duration'', IntCell 9),
      (''history'', IntCell 4), (''purpose'', IntCell 0), (''amount'', IntCell 2799),
      (''savings'', IntCell 1), (''employment'', IntCell 3), (''instPercent'', IntCell 2),
      (''sexMarried'', IntCell 3), (''guarantors'', IntCell 1), (''residenceDuration'', IntCell 2),
      (''assets'', IntCell 1), (''age'', IntCell 36), (''concCredit'', IntCell 3),
      (''apartment'', IntCell 1), (''credits'', IntCell 2), (''occupation'', IntCell 3),
      (''dependents'', IntCell 2), (''hasPhone'', IntCell 1), (''foreign'', IntCell 1)]"

section \<open>The tree dump (cell 37)\<close>

text \<open>
  \<^verbatim>\<open>
  tree_model_string = model.trees[0].toDebugString
  for index, column_name in enumerate(feature_column_names):
      tree_model_string = tree_model_string.replace(
          'feature {} '.format(index),
          '{} '.format(column_name)
      )
  \<close>
  \<open>str_nat\<close> is the decimal text \<open>'{}'.format(index)\<close> of an index, which
  \<open>enumerate\<close> counts from 0.
\<close>

definition digit_char :: "nat \<Rightarrow> char" where
  "digit_char d = char_of (48 + d)"

fun str_nat :: "nat \<Rightarrow> string" where
  "str_nat n = (if n < 10 then [digit_char n] else str_nat (n div 10) @ [digit_char (n mod 10)])"

declare str_nat.simps [simp del]

text \<open>
  \<open>str_replace s old new\<close> is Python's \<open>s.replace(old, new)\<close>: the string is read from
  the left; where \<open>old\<close> starts, \<open>new\<close> is written and reading goes on behind that
  occurrence, so the occurrences replaced do not overlap and the text written is not read
  again. An empty \<open>old\<close> puts \<open>new\<close> before every character and at the end.
\<close>

fun replace_from :: "string \<Rightarrow> string \<Rightarrow> string \<Rightarrow> string" where
  "replace_from old new [] = []"
| "replace_from old new (c # cs) =
     (if old \<noteq> [] \<and> prefix old (c # cs)
      then new @ replace_from old new (drop (length old) (c # cs))
      else c # replace_from old new cs)"

definition str_replace :: "string \<Rightarrow> string \<Rightarrow> string \<Rightarrow> string" where
  "str_replace s old new =
     (if old = [] then new @ concat (map (\<lambda>c. c # new) s) else replace_from old new s)"


subsection \<open>What the dump is meant to be\<close>


definition feature_pattern :: "nat \<Rightarrow> string" where
  "feature_pattern i = ''feature '' @ str_nat i @ '' ''"


subsection \<open>Conditions under which passes in sequence are one substitution\<close>





section \<open>The feature list\<close>

lemma length_feature_column_names: "length feature_column_names = 20"
  by (simp add: feature_column_names_def)

lemma distinct_feature_column_names: "distinct feature_column_names"
  by (simp add: feature_column_names_def)

text \<open>
  C10: \<open>feature_column_names\<close> has exactly 20 entries, no two of them equal, so the map
  from an index below 20 to its column name is injective.
\<close>

theorem feature_column_names_injective:
  "length feature_column_names = 20 \<and> distinct feature_column_names \<and>
   inj_on (\<lambda>i. feature_column_names ! i) {..<20}"
proof -
  have "inj_on (\<lambda>i. feature_column_names ! i) {..<length feature_column_names}"
    using distinct_feature_column_names
    by (auto simp: inj_on_def nth_eq_iff_index_eq)
  then show ?thesis
    by (simp add: length_feature_column_names distinct_feature_column_names)
qed

section \<open>The display mapping of \<open>balance\<close>\<close>

lemma checking_account_status_keys:
  "index \<in> {1, 2, 3, 4} \<Longrightarrow> \<exists>s. checking_account_status index = Inr s"
  by (auto simp: checking_account_status_def CHECKING_ACCOUNT_STATUS_def)

lemma checking_account_status_missing:
  "index \<notin> {1, 2, 3, 4} \<Longrightarrow> checking_account_status index = Inl (KeyError index)"
  by (simp add: checking_account_status_def CHECKING_ACCOUNT_STATUS_def)

lemma with_status_column_error:
  "r \<in> set rs \<Longrightarrow> balance r \<notin> {1, 2, 3, 4} \<Longrightarrow>
   \<exists>k. k \<notin> {1, 2, 3, 4} \<and> with_status_column rs = Inl (KeyError k)"
proof (induction rs)
  case Nil
  then show ?case by simp
next
  case (Cons a rs)
  show ?case
  proof (cases "balance a \<in> {1, 2, 3, 4}")
    case False
    then have "with_status_column (a # rs) = Inl (KeyError (balance a))"
      by (simp add: checking_account_status_missing)
    with False show ?thesis by blast
  next
    case True
    then obtain s where s: "checking_account_status (balance a) = Inr s"
      using checking_account_status_keys by blast
    from True Cons.prems have "r \<in> set rs" by auto
    then obtain k where "k \<notin> {1, 2, 3, 4}" "with_status_column rs = Inl (KeyError k)"
      using Cons.IH Cons.prems(2) by blast
    then show ?thesis using s by auto
  qed
qed

text \<open>The table is produced when every \<open>balance\<close> is one of the four keys.\<close>

lemma with_status_column_total:
  "\<forall>r\<in>set rs. balance r \<in> {1, 2, 3, 4} \<Longrightarrow> \<exists>out. with_status_column rs = Inr out"
proof (induction rs)
  case Nil
  then show ?case by simp
next
  case (Cons a rs)
  then obtain s out where "checking_account_status (balance a) = Inr s"
    "with_status_column rs = Inr out"
    using checking_account_status_keys[of "balance a"] by auto
  then show ?case by simp
qed

lemma balance_group_pivot_count:
  "balance ` set (group_pivot_count rows) = fst ` set rows"
proof -
  have "map balance (group_pivot_count rows) = rev (sort (remdups (map fst rows)))"
    by (simp add: group_pivot_count_def comp_def)
  then have "set (map balance (group_pivot_count rows)) = set (map fst rows)"
    by simp
  then show ?thesis by simp
qed

lemma status_table_total:
  "fst ` set rows \<subseteq> {1, 2, 3, 4} \<Longrightarrow> \<exists>out. status_table rows = Inr out"
  unfolding status_table_def
  using with_status_column_total[of "group_pivot_count rows"] balance_group_pivot_count[of rows]
  by blast

text \<open>
  C3: the display mapping applied to a \<open>balance\<close> outside 1..4 raises \<open>KeyError\<close> for
  that very value, and a table whose data hold such a \<open>balance\<close> (5, say) raises
  \<open>KeyError\<close> for a value outside 1..4 instead of producing rows.
\<close>

theorem checking_account_status_lookup_error:
  "(\<forall>index. index \<notin> {1, 2, 3, 4} \<longrightarrow> checking_account_status index = Inl (KeyError index)) \<and>
   (\<forall>rows b l. (b, l) \<in> set rows \<and> b \<notin> {1, 2, 3, 4} \<longrightarrow>
      (\<exists>k. k \<notin> {1, 2, 3, 4} \<and> status_table rows = Inl (KeyError k)))"
proof (intro conjI allI impI)
  fix index :: int
  assume "index \<notin> {1, 2, 3, 4}"
  then show "checking_account_status index = Inl (KeyError index)"
    by (rule checking_account_status_missing)
next
  fix rows :: "(int \<times> int) list" and b l :: int
  assume a: "(b, l) \<in> set rows \<and> b \<notin> {1, 2, 3, 4}"
  then have "b \<in> balance ` set (group_pivot_count rows)"
    unfolding balance_group_pivot_count by force
  then obtain r where "r \<in> set (group_pivot_count rows)" "balance r = b" by auto
  with a show "\<exists>k. k \<notin> {1, 2, 3, 4} \<and> status_table rows = Inl (KeyError k)"
    unfolding status_table_def using with_status_column_error by blast
qed

theorem checking_account_status_lookup_error_witness:
  "(5::int) \<notin> {1, 2, 3, 4} \<and> checking_account_status 5 = Inl (KeyError 5) \<and>
   (5, 1) \<in> set [(1::int, 1::int), (5, 1), (4, 0)] \<and>
   (\<exists>k. k \<notin> {1, 2, 3, 4} \<and> status_table [(1, 1), (5, 1), (4, 0)] = Inl (KeyError k))"
proof -
  have m: "(5, 1) \<in> set [(1::int, 1::int), (5, 1), (4, 0)] \<and> (5::int) \<notin> {1, 2, 3, 4}"
    by simp
  have "checking_account_status 5 = Inl (KeyError 5)"
    using checking_account_status_lookup_error by simp
  moreover have "\<exists>k. k \<notin> {1, 2, 3, 4} \<and>
      status_table [(1, 1), (5, 1), (4, 0)] = Inl (KeyError k)"
    using checking_account_status_lookup_error m by blast
  ultimately show ?thesis using m by blast
qed

section \<open>The feature vector\<close>

lemma assemble_Inr:
  "assemble cs r = Inr v \<Longrightarrow>
   length v = length cs \<and>
   (\<forall>i<length cs. \<exists>c. map_of r (cs ! i) = Some c \<and> numeric c = Some (v ! i))"
proof (induction cs arbitrary: v)
  case Nil
  then show ?case by auto
next
  case (Cons a cs)
  from Cons.prems obtain c x xs where
    c: "map_of r a = Some c" "numeric c = Some x" and xs: "assemble cs r = Inr xs" and v: "v = x # xs"
    by (auto split: option.splits sum.splits)
  from Cons.IH[OF xs] have ih: "length xs = length cs"
    "\<forall>i<length cs. \<exists>c. map_of r (cs ! i) = Some c \<and> numeric c = Some (xs ! i)"
    by blast+
  have "\<exists>c. map_of r ((a # cs) ! i) = Some c \<and> numeric c = Some (v ! i)"
    if "i < length (a # cs)" for i
    using that c ih v by (cases i) auto
  then show ?case using ih v by simp
qed

text \<open>The assembler returns a vector for a row whose named columns are all numeric.\<close>

lemma assemble_total:
  "\<forall>c\<in>set cs. \<exists>v x. map_of r c = Some v \<and> numeric v = Some x \<Longrightarrow> \<exists>xs. assemble cs r = Inr xs"
  by (induction cs) auto

lemma VectorAssembler_transform_Inr:
  "VectorAssembler_transform cs out df = Inr res \<Longrightarrow>
   length res = length df \<and>
   (\<forall>k<length df. \<exists>v. res ! k = df ! k @ [(out, VectorCell v)] \<and> assemble cs (df ! k) = Inr v)"
proof (induction df arbitrary: res)
  case Nil
  then show ?case by auto
next
  case (Cons r df)
  from Cons.prems obtain v rest where
    v: "assemble cs r = Inr v" and rest: "VectorAssembler_transform cs out df = Inr rest"
    and res: "res = (r @ [(out, VectorCell v)]) # rest"
    by (auto split: sum.splits)
  from Cons.IH[OF rest] have ih: "length rest = length df"
    "\<forall>k<length df. \<exists>v. rest ! k = df ! k @ [(out, VectorCell v)] \<and> assemble cs (df ! k) = Inr v"
    by blast+
  have "\<exists>v. res ! k = (r # df) ! k @ [(out, VectorCell v)] \<and> assemble cs ((r # df) ! k) = Inr v"
    if "k < length (r # df)" for k
    using that v ih res by (cases k) auto
  then show ?case using ih res by simp
qed

lemma VectorAssembler_transform_total:
  "\<forall>r\<in>set df. \<exists>v. assemble cs r = Inr v \<Longrightarrow>
   \<exists>res. VectorAssembler_transform cs out df = Inr res"
proof (induction df)
  case Nil
  then show ?case by simp
next
  case (Cons r df)
  then obtain v res where "assemble cs r = Inr v" "VectorAssembler_transform cs out df = Inr res"
    by auto
  then show ?case by simp
qed

lemma features_df_total:
  assumes "\<forall>r\<in>set credits_df. \<forall>c\<in>set feature_column_names.
             \<exists>v x. map_of r c = Some v \<and> numeric v = Some x"
  shows "\<exists>out. features_df credits_df = Inr out"
proof -
  have "\<forall>r\<in>set credits_df. \<exists>v. assemble feature_column_names r = Inr v"
    using assms assemble_total[of feature_column_names] by blast
  then show ?thesis
    unfolding features_df_def by (rule VectorAssembler_transform_total)
qed

lemma features_df_layout:
  assumes "features_df credits_df = Inr out"
  shows "length out = length credits_df \<and>
    (\<forall>k<length credits_df. \<exists>v.
        out ! k = credits_df ! k @ [(''features'', VectorCell v)] \<and>
        length v = 20 \<and>
        (\<forall>i<20. \<exists>c. map_of (credits_df ! k) (feature_column_names ! i) = Some c \<and>
                     numeric c = Some (v ! i)))"
proof -
  from assms have t: "length out = length credits_df"
    "\<forall>k<length credits_df. \<exists>v. out ! k = credits_df ! k @ [(''features'', VectorCell v)] \<and>
        assemble feature_column_names (credits_df ! k) = Inr v"
    unfolding features_df_def using VectorAssembler_transform_Inr by blast+
  have "\<exists>v. out ! k = credits_df ! k @ [(''features'', VectorCell v)] \<and>
        length v = 20 \<and>
        (\<forall>i<20. \<exists>c. map_of (credits_df ! k) (feature_column_names ! i) = Some c \<and>
                     numeric c = Some (v ! i))"
    if k: "k < length credits_df" for k
  proof -
    from t(2) k obtain v where v: "out ! k = credits_df ! k @ [(''features'', VectorCell v)]"
      "assemble feature_column_names (credits_df ! k) = Inr v" by blast
    from assemble_Inr[OF v(2)] show ?thesis
      using v(1) by (auto simp: length_feature_column_names)
  qed
  with t(1) show ?thesis by blast
qed

text \<open>
  C4: a table in which every row holds a number in each of the 20 columns of
  \<open>feature_column_names\<close> is assembled, and in every table that the assembler returns
  each row is the input row with the column \<open>features\<close> added, the vector in it has
  length 20, and its \<open>i\<close>-th element is the number in the column that
  \<open>feature_column_names\<close> names at \<open>i\<close>.
\<close>

theorem feature_vector_layout:
  "((\<forall>r\<in>set credits_df. \<forall>c\<in>set feature_column_names.
       \<exists>v x. map_of r c = Some v \<and> numeric v = Some x) \<longrightarrow>
    (\<exists>out. features_df credits_df = Inr out)) \<and>
   (\<forall>out. features_df credits_df = Inr out \<longrightarrow>
      length out = length credits_df \<and>
      (\<forall>k<length credits_df. \<exists>v.
          out ! k = credits_df ! k @ [(''features'', VectorCell v)] \<and>
          length v = 20 \<and>
          (\<forall>i<20. \<exists>c. map_of (credits_df ! k) (feature_column_names ! i) = Some c \<and>
                       numeric c = Some (v ! i))))"
  using features_df_total[of credits_df] features_df_layout[of credits_df] by blast

lemma example_rows_numeric:
  "\<forall>r\<in>set [example_row, example_row2]. \<forall>c\<in>set feature_column_names.
     \<exists>v x. map_of r c = Some v \<and> numeric v = Some x"
  by (simp add: feature_column_names_def example_row_def example_row2_def numeric_def)

lemma features_df_example:
  "features_df [example_row, example_row2] =
     Inr [example_row @ [(''features'', VectorCell [1, 18, 4, 2, 1049, 1, 2, 4, 2, 1, 4, 2, 21, 3, 1, 1, 3, 1, 1, 1])],
      example_row2 @ [(''features'', VectorCell [2, 9, 4, 0, 2799, 1, 3, 2, 3, 1, 2, 1, 36, 3, 1, 2, 3, 2, 1, 1])]]"
  by (simp add: features_df_def feature_column_names_def example_row_def example_row2_def
      numeric_def)

theorem feature_vector_layout_witness:
  "(\<exists>out. features_df [example_row, example_row2] = Inr out) \<and>
   features_df [example_row, example_row2] =
     Inr [example_row @ [(''features'', VectorCell [1, 18, 4, 2, 1049, 1, 2, 4, 2, 1, 4, 2, 21, 3, 1, 1, 3, 1, 1, 1])],
      example_row2 @ [(''features'', VectorCell [2, 9, 4, 0, 2799, 1, 3, 2, 3, 1, 2, 1, 36, 3, 1, 2, 3, 2, 1, 1])]] \<and>
   length [example_row @ [(''features'', VectorCell [1, 18, 4, 2, 1049, 1, 2, 4, 2, 1, 4, 2, 21, 3, 1, 1, 3, 1, 1, 1])],
      example_row2 @ [(''features'', VectorCell [2, 9, 4, 0, 2799, 1, 3, 2, 3, 1, 2, 1, 36, 3, 1, 2, 3, 2, 1, 1])]] = length [example_row, example_row2] \<and>
   (\<exists>v. [example_row @ [(''features'', VectorCell [1, 18, 4, 2, 1049, 1, 2, 4, 2, 1, 4, 2, 21, 3, 1, 1, 3, 1, 1, 1])],
      example_row2 @ [(''features'', VectorCell [2, 9, 4, 0, 2799, 1, 3, 2, 3, 1, 2, 1, 36, 3, 1, 2, 3, 2, 1, 1])]] ! 1
          = [example_row, example_row2] ! 1 @ [(''features'', VectorCell v)] \<and>
        length v = 20 \<and>
        (\<exists>c. map_of ([example_row, example_row2] ! 1) (feature_column_names ! 4) = Some c \<and>
             numeric c = Some (v ! 4)))"
proof -
  note t = feature_vector_layout[of "[example_row, example_row2]"]
  from t example_rows_numeric
  have total: "\<exists>out. features_df [example_row, example_row2] = Inr out"
    by blast
  from t features_df_example
  have lay: "length [example_row @ [(''features'', VectorCell [1, 18, 4, 2, 1049, 1, 2, 4, 2, 1, 4, 2, 21, 3, 1, 1, 3, 1, 1, 1])],
      example_row2 @ [(''features'', VectorCell [2, 9, 4, 0, 2799, 1, 3, 2, 3, 1, 2, 1, 36, 3, 1, 2, 3, 2, 1, 1])]] = length [example_row, example_row2] \<and>
      (\<forall>k<length [example_row, example_row2]. \<exists>v.
          [example_row @ [(''features'', VectorCell [1, 18, 4, 2, 1049, 1, 2, 4, 2, 1, 4, 2, 21, 3, 1, 1, 3, 1, 1, 1])],
      example_row2 @ [(''features'', VectorCell [2, 9, 4, 0, 2799, 1, 3, 2, 3, 1, 2, 1, 36, 3, 1, 2, 3, 2, 1, 1])]] ! k
            = [example_row, example_row2] ! k @ [(''features'', VectorCell v)] \<and>
          length v = 20 \<and>
          (\<forall>i<20. \<exists>c. map_of ([example_row, example_row2] ! k) (feature_column_names ! i) = Some c \<and>
                       numeric c = Some (v ! i)))"
    by blast
  have k: "1 < length [example_row, example_row2]" by simp
  from lay k obtain v where v:
    "[example_row @ [(''features'', VectorCell [1, 18, 4, 2, 1049, 1, 2, 4, 2, 1, 4, 2, 21, 3, 1, 1, 3, 1, 1, 1])],
      example_row2 @ [(''features'', VectorCell [2, 9, 4, 0, 2799, 1, 3, 2, 3, 1, 2, 1, 36, 3, 1, 2, 3, 2, 1, 1])]] ! 1
       = [example_row, example_row2] ! 1 @ [(''features'', VectorCell v)]"
    "length v = 20"
    "\<forall>i<20. \<exists>c. map_of ([example_row, example_row2] ! 1) (feature_column_names ! i) = Some c \<and>
                 numeric c = Some (v ! i)"
    by blast
  have "(4::nat) < 20" by simp
  with v(3) have "\<exists>c. map_of ([example_row, example_row2] ! 1) (feature_column_names ! 4) = Some c \<and>
                     numeric c = Some (v ! 4)"
    by blast
  with v(1,2) total features_df_example lay show ?thesis by blast
qed

section \<open>The tree dump as one substitution\<close>





























text \<open>
  The example of the specification: the pass for index 1 leaves the patterns of the
  indices 10 to 19 as they are. Without the space at the end of the pattern it would not.
\<close>

lemma index_1_leaves_index_10_to_19:
  "list_all (\<lambda>j. str_replace (feature_pattern j) (feature_pattern 1) ''duration '' = feature_pattern j)
     [10..<20]"
  by code_simp

lemma no_trailing_space_clobbers_index_10:
  "str_replace ''feature 10 <= 1.5'' ''feature 1'' ''duration'' = ''duration0 <= 1.5''"
  by code_simp

end
